theory Spec2Isabelle
  imports Main "HOL-Library.Word"
begin

section \<open>The native storage library, seen from the wrapper\<close>

text \<open>
  The wrapper in \<^verbatim>\<open>source/base/hdf5.cc\<close> does nothing but allocate small heap cells
  that hold native identifiers, and issue calls of the native storage library. The
  library itself is an external collaborator. It is kept abstract here: every call is
  recorded, in order, with the arguments the wrapper passes and with what the library
  hands back. The wrapper never inspects what a call returns, it only stores it and
  passes it on, so the result of the \<open>k\<close>-th call that returns an identifier is
  the token \<open>Handle k\<close>, whether that call succeeded or not. What the library
  stores on disk is not modelled.
\<close>

type_synonym hsize_t = "64 word"

text \<open>
  Values of the native identifier type. \<open>Handle k\<close> is what the library returned
  at run time; the other constructors are the library's predefined constants that the
  source mentions. \<open>Indeterminate\<close> is the content of a \<^verbatim>\<open>new hid_t\<close> that
  nothing has been assigned to yet.
\<close>

datatype hid_t =
    Handle nat
  | Indeterminate
  | H5P_DEFAULT
  | H5S_ALL
  | H5P_DATASET_XFER
  | H5P_FILE_ACCESS
  | H5T_NATIVE_FLOAT
  | H5T_NATIVE_DOUBLE
  | H5T_NATIVE_LDOUBLE
  | H5T_NATIVE_INT
  | H5T_NATIVE_UINT

datatype H5T_class_t = H5T_COMPOUND

datatype H5S_seloper_t = H5S_SELECT_SET

datatype H5FD_mpio_xfer_t = H5FD_MPIO_COLLECTIVE

datatype H5F_flags = H5F_ACC_TRUNC | H5F_ACC_RDWR

datatype MPI_Comm = MPI_COMM_NULL | Communicator nat

datatype MPI_Info = MPI_INFO_NULL

text \<open>
  The native calls of the source, one constructor each, arguments in the order of the
  C interface. An array argument is recorded by its content, a null pointer as
  \<open>None\<close>.
\<close>

datatype 'a native_call =
    H5Tcreate H5T_class_t nat
  | H5Tinsert hid_t string nat hid_t
  | H5Tclose hid_t
  | H5Screate_simple nat "hsize_t list" "hsize_t list option"
  | H5Sselect_elements hid_t H5S_seloper_t nat "hsize_t list"
  | H5Sselect_hyperslab hid_t H5S_seloper_t "hsize_t list" "hsize_t list option"
      "hsize_t list" "hsize_t list option"
  | H5Sselect_none hid_t
  | H5Sclose hid_t
  | H5Dcreate2 hid_t string hid_t hid_t hid_t hid_t hid_t
  | H5Dwrite hid_t hid_t hid_t hid_t hid_t "'a list option"
  | H5Dclose hid_t
  | H5Gcreate2 hid_t string hid_t hid_t hid_t
  | H5Gopen2 hid_t string hid_t
  | H5Gclose hid_t
  | H5Pcreate hid_t
  | H5Pset_dxpl_mpio hid_t H5FD_mpio_xfer_t
  | H5Pset_fapl_mpio hid_t MPI_Comm MPI_Info
  | H5Pclose hid_t
  | H5Fcreate string H5F_flags hid_t hid_t
  | H5Fopen string H5F_flags hid_t
  | H5Fclose hid_t

type_synonym 'a event = "'a native_call \<times> hid_t option"

text \<open>
  The disposal action bound to a \<^verbatim>\<open>std::shared_ptr<hid_t>\<close> at construction: the
  default one only frees the cell, the lambdas of the source first close the native
  entity.
\<close>

datatype closer = Delete_only | Close_T | Close_D | Close_S | Close_G | Close_F

record cell =
  cell_value :: hid_t
  cell_deleter :: closer
  cell_use_count :: nat

text \<open>
  The state threaded through the wrapper: the heap cells managed by shared pointers
  (by address), the next free address, the next identifier the library will issue, and
  the calls issued so far.
\<close>

record 'a h5_state =
  cells :: "nat \<Rightarrow> cell option"
  next_addr :: nat
  next_hid :: nat
  trace :: "'a event list"

definition init_state :: "'a h5_state" where
  "init_state = \<lparr>cells = (\<lambda>_. None), next_addr = 0, next_hid = 0, trace = []\<rparr>"

text \<open>A native call that returns an identifier, and one whose status result is dropped.\<close>

definition native_ret :: "'a native_call \<Rightarrow> 'a h5_state \<Rightarrow> hid_t \<times> 'a h5_state" where
  "native_ret c s =
     (Handle (next_hid s),
      s\<lparr>next_hid := Suc (next_hid s),
        trace := trace s @ [(c, Some (Handle (next_hid s)))]\<rparr>)"

definition native_void :: "'a native_call \<Rightarrow> 'a h5_state \<Rightarrow> 'a h5_state" where
  "native_void c s = s\<lparr>trace := trace s @ [(c, None)]\<rparr>"

text \<open>
  \<^verbatim>\<open>std::shared_ptr<hid_t>(new hid_t, deleter)\<close>: a fresh cell with indeterminate
  content, one owner.
\<close>

definition new_hid_t :: "closer \<Rightarrow> 'a h5_state \<Rightarrow> nat \<times> 'a h5_state" where
  "new_hid_t d s =
     (next_addr s,
      s\<lparr>cells := (cells s)(next_addr s \<mapsto>
            \<lparr>cell_value = Indeterminate, cell_deleter = d, cell_use_count = 1\<rparr>),
        next_addr := Suc (next_addr s)\<rparr>)"

text \<open>
  \<^verbatim>\<open>*p\<close> read and \<^verbatim>\<open>*p = v\<close>. Going through a pointer that owns no cell is
  undefined in the source; the model reads \<open>Indeterminate\<close> and writes nothing there.
\<close>

definition deref :: "'a h5_state \<Rightarrow> nat \<Rightarrow> hid_t" where
  "deref s p = (case cells s p of None \<Rightarrow> Indeterminate | Some c \<Rightarrow> cell_value c)"

definition store :: "nat \<Rightarrow> hid_t \<Rightarrow> 'a h5_state \<Rightarrow> 'a h5_state" where
  "store p v s =
     (case cells s p of
        None \<Rightarrow> s
      | Some c \<Rightarrow> s\<lparr>cells := (cells s)(p \<mapsto> c\<lparr>cell_value := v\<rparr>)\<rparr>)"

text \<open>The body of a deleter: close the native entity, if the deleter does so.\<close>

definition run_deleter :: "closer \<Rightarrow> hid_t \<Rightarrow> 'a h5_state \<Rightarrow> 'a h5_state" where
  "run_deleter d v s =
     (case d of
        Delete_only \<Rightarrow> s
      | Close_T \<Rightarrow> native_void (H5Tclose v) s
      | Close_D \<Rightarrow> native_void (H5Dclose v) s
      | Close_S \<Rightarrow> native_void (H5Sclose v) s
      | Close_G \<Rightarrow> native_void (H5Gclose v) s
      | Close_F \<Rightarrow> native_void (H5Fclose v) s)"

text \<open>
  \<^verbatim>\<open>p.reset()\<close>, and the destructor of a shared pointer: the last owner runs the
  deleter on the cell and frees it, any other owner only gives up its share.
\<close>

definition reset :: "nat \<Rightarrow> 'a h5_state \<Rightarrow> 'a h5_state" where
  "reset p s =
     (case cells s p of
        None \<Rightarrow> s
      | Some c \<Rightarrow>
          if cell_use_count c \<le> 1
          then (run_deleter (cell_deleter c) (cell_value c) s)\<lparr>cells := (cells s)(p := None)\<rparr>
          else s\<lparr>cells := (cells s)(p \<mapsto> c\<lparr>cell_use_count := cell_use_count c - 1\<rparr>)\<rparr>)"

section \<open>Assertions\<close>

datatype error = ExcInternalError | ExcDimensionMismatch nat nat

text \<open>
  Modelled from the spec: the macros \<^verbatim>\<open>Assert\<close> and \<^verbatim>\<open>AssertDimension\<close> are not
  among the sources. The spec describes an assertion mechanism that aborts on a
  violated contract, so a failed assertion ends the operation with the exception
  object as an error value and the rest of the body does not run.
  \<^verbatim>\<open>AssertDimension(a, b)\<close> compares with \<^verbatim>\<open>==\<close>; its two arguments are given
  here by their values after the conversion to \<^verbatim>\<open>std::size_t\<close> that the
  comparison applies.
\<close>

definition Assert :: "bool \<Rightarrow> error \<Rightarrow> (error + 'b) \<Rightarrow> (error + 'b)" where
  "Assert cond exc rest = (if cond then rest else Inl exc)"

definition AssertDimension :: "nat \<Rightarrow> nat \<Rightarrow> (error + 'b) \<Rightarrow> (error + 'b)" where
  "AssertDimension dim1 dim2 rest = Assert (dim1 = dim2) (ExcDimensionMismatch dim1 dim2) rest"

section \<open>The type-descriptor resolver\<close>

text \<open>
  The template parameter \<^verbatim>\<open>T\<close> of the source. \<open>T_other\<close> stands for any type the
  chain of \<^verbatim>\<open>std::is_same\<close> tests does not list.
\<close>

datatype T =
    T_float | T_double | T_long_double | T_int | T_unsigned_int
  | T_complex_float | T_complex_double | T_complex_long_double
  | T_other

text \<open>
  \<^verbatim>\<open>sizeof\<close> of the floating types, in bytes, as on x86-64 Linux; a
  \<^verbatim>\<open>std::complex\<close> is an array of two of them.
\<close>

definition sizeof_float :: nat where "sizeof_float = 4"
definition sizeof_double :: nat where "sizeof_double = 8"
definition sizeof_long_double :: nat where "sizeof_long_double = 16"
definition sizeof_complex_float :: nat where "sizeof_complex_float = 2 * sizeof_float"
definition sizeof_complex_double :: nat where "sizeof_complex_double = 2 * sizeof_double"
definition sizeof_complex_long_double :: nat where
  "sizeof_complex_long_double = 2 * sizeof_long_double"

definition get_hdf5_datatype :: "T \<Rightarrow> 'a h5_state \<Rightarrow> error + (nat \<times> 'a h5_state)" where
  "get_hdf5_datatype t s =
     (if t = T_float then
        (let (t_type, s1) = new_hid_t Delete_only s
         in Inr (t_type, store t_type H5T_NATIVE_FLOAT s1))
      else if t = T_double then
        (let (t_type, s1) = new_hid_t Delete_only s
         in Inr (t_type, store t_type H5T_NATIVE_DOUBLE s1))
      else if t = T_long_double then
        (let (t_type, s1) = new_hid_t Delete_only s
         in Inr (t_type, store t_type H5T_NATIVE_LDOUBLE s1))
      else if t = T_int then
        (let (t_type, s1) = new_hid_t Delete_only s
         in Inr (t_type, store t_type H5T_NATIVE_INT s1))
      else if t = T_unsigned_int then
        (let (t_type, s1) = new_hid_t Delete_only s
         in Inr (t_type, store t_type H5T_NATIVE_UINT s1))
      else if t = T_complex_float then
        (let (t_type, s1) = new_hid_t Close_T s;
             (h, s2) = native_ret (H5Tcreate H5T_COMPOUND sizeof_complex_float) s1;
             s3 = store t_type h s2;
             s4 = native_void (H5Tinsert (deref s3 t_type) ''r'' 0 H5T_NATIVE_FLOAT) s3;
             s5 = native_void
                    (H5Tinsert (deref s4 t_type) ''i'' sizeof_float H5T_NATIVE_FLOAT) s4
         in Inr (t_type, s5))
      else if t = T_complex_double then
        (let (t_type, s1) = new_hid_t Close_T s;
             (h, s2) = native_ret (H5Tcreate H5T_COMPOUND sizeof_complex_double) s1;
             s3 = store t_type h s2;
             s4 = native_void (H5Tinsert (deref s3 t_type) ''r'' 0 H5T_NATIVE_DOUBLE) s3;
             s5 = native_void
                    (H5Tinsert (deref s4 t_type) ''i'' sizeof_double H5T_NATIVE_DOUBLE) s4
         in Inr (t_type, s5))
      else if t = T_complex_long_double then
        (let (t_type, s1) = new_hid_t Close_T s;
             (h, s2) = native_ret (H5Tcreate H5T_COMPOUND sizeof_complex_long_double) s1;
             s3 = store t_type h s2;
             s4 = native_void (H5Tinsert (deref s3 t_type) ''r'' 0 H5T_NATIVE_LDOUBLE) s3;
             s5 = native_void
                    (H5Tinsert (deref s4 t_type) ''i'' sizeof_long_double H5T_NATIVE_LDOUBLE) s4
         in Inr (t_type, s5))
      else Assert False ExcInternalError (Inr (0, s)))"

text \<open>What the claims about complex types speak of: the floating type under a complex one.\<close>

fun complex_base :: "T \<Rightarrow> (hid_t \<times> nat) option" where
  "complex_base T_complex_float = Some (H5T_NATIVE_FLOAT, sizeof_float)"
| "complex_base T_complex_double = Some (H5T_NATIVE_DOUBLE, sizeof_double)"
| "complex_base T_complex_long_double = Some (H5T_NATIVE_LDOUBLE, sizeof_long_double)"
| "complex_base _ = None"

section \<open>Named objects\<close>

text \<open>
  \<^verbatim>\<open>HDF5Object\<close>: a name, the flag for collective I/O and the shared pointer to the
  native identifier (the address of its cell). A \<^verbatim>\<open>Group\<close> and a \<^verbatim>\<open>File\<close> add
  no member in the source file.
\<close>

record HDF5Object =
  name :: string
  mpi :: bool
  hdf5_reference :: nat

type_synonym Group = HDF5Object

type_synonym File = HDF5Object

text \<open>
  The enumeration \<^verbatim>\<open>Mode\<close> is declared in the header; the source names the
  enumerators \<^verbatim>\<open>create\<close> and \<^verbatim>\<open>open\<close> and has a \<^verbatim>\<open>default\<close> branch for any
  other value.
\<close>

datatype Mode = Mode_create | Mode_open | Mode_other

section \<open>Datasets\<close>

text \<open>
  The members \<^verbatim>\<open>rank\<close> and \<^verbatim>\<open>total_size\<close> are declared in the header, which is
  not among the sources. \<open>rank\<close> is kept as the number of dimensions. For
  \<^verbatim>\<open>total_size\<close> the width of its unsigned type is a parameter \<open>bits\<close> of the
  constructor (at most 64 for a built-in type): \<^verbatim>\<open>total_size *= dimension\<close>
  multiplies in the 64-bit type of \<^verbatim>\<open>hsize_t\<close> and narrows the result to the
  member's type.
\<close>

record DataSet = HDF5Object +
  rank :: nat
  dimensions :: "hsize_t list"
  t_type :: nat
  dataspace :: nat
  total_size :: nat

definition times_assign :: "nat \<Rightarrow> nat \<Rightarrow> hsize_t \<Rightarrow> nat" where
  "times_assign bits acc dimension = ((acc * unat dimension) mod 2 ^ 64) mod 2 ^ bits"

definition compute_total_size :: "nat \<Rightarrow> hsize_t list \<Rightarrow> nat" where
  "compute_total_size bits dims = foldl (times_assign bits) 1 dims"

definition DataSet_ctor ::
  "nat \<Rightarrow> T \<Rightarrow> string \<Rightarrow> hid_t \<Rightarrow> hsize_t list \<Rightarrow> bool \<Rightarrow> Mode \<Rightarrow> 'a h5_state
   \<Rightarrow> error + (DataSet \<times> 'a h5_state)" where
  "DataSet_ctor bits t nm parent_group_id dims mpi_flag mode s =
     (case get_hdf5_datatype t s of
        Inl e \<Rightarrow> Inl e
      | Inr (tt, s0) \<Rightarrow>
          (let (href, s1) = new_hid_t Close_D s0;
               (dsp, s2) = new_hid_t Close_S s1;
               this = \<lparr>name = nm, mpi = mpi_flag, hdf5_reference = href,
                       rank = length dims, dimensions = dims, t_type = tt,
                       dataspace = dsp, total_size = compute_total_size bits dims\<rparr>
           in case mode of
                Mode_create \<Rightarrow>
                  (let (sp, s3) = native_ret (H5Screate_simple (rank this) dims None) s2;
                       s4 = store dsp sp s3;
                       (d, s5) = native_ret
                                   (H5Dcreate2 parent_group_id nm (deref s4 tt) (deref s4 dsp)
                                      H5P_DEFAULT H5P_DEFAULT H5P_DEFAULT) s4;
                       s6 = store href d s5
                   in Inr (this, s6))
              | Mode_open \<Rightarrow>
                  (let (g, s3) = native_ret (H5Gopen2 parent_group_id nm H5P_DEFAULT) s2;
                       s4 = store href g s3
                   in Inr (this, s4))
              | Mode_other \<Rightarrow> Assert False ExcInternalError (Inr (this, s2))))"

text \<open>
  The destructor resets the dataset pointer, then the dataspace pointer. After its
  body the members are destroyed: the two pointers are empty by then, and the pointer
  to the type descriptor gives up its cell.
\<close>

definition DataSet_dtor :: "DataSet \<Rightarrow> 'a h5_state \<Rightarrow> 'a h5_state" where
  "DataSet_dtor this s =
     (let s1 = reset (hdf5_reference this) s;
          s2 = reset (dataspace this) s1
      in reset (t_type this) s2)"

text \<open>
  Modelled from the spec: the dense matrix \<^verbatim>\<open>FullMatrix<T>\<close> is an external
  collaborator that offers its row count \<^verbatim>\<open>m()\<close>, its column count \<^verbatim>\<open>n()\<close> and
  contiguous row-major storage.
\<close>

record 'a FullMatrix =
  FM_m :: nat
  FM_n :: nat
  FM_values :: "'a list"

text \<open>
  Sizes of type \<^verbatim>\<open>std::size_t\<close> (64 bits) are natural numbers; the size of a
  \<^verbatim>\<open>std::vector\<close> is the length of the list, and a product of two sizes wraps.
\<close>

definition size_t_times :: "nat \<Rightarrow> nat \<Rightarrow> nat" where
  "size_t_times a b = (a * b) mod 2 ^ 64"

definition write_data :: "DataSet \<Rightarrow> 'a list \<Rightarrow> 'a h5_state \<Rightarrow> error + 'a h5_state" where
  "write_data this data s =
     AssertDimension (total_size this) (length data)
       (let (plist, s1) =
              (if mpi this
               then (let (p, sa) = native_ret (H5Pcreate H5P_DATASET_XFER) s
                     in (p, native_void (H5Pset_dxpl_mpio p H5FD_MPIO_COLLECTIVE) sa))
               else (H5P_DEFAULT, s));
            s2 = native_void
                   (H5Dwrite (deref s1 (hdf5_reference this)) (deref s1 (t_type this))
                      H5S_ALL H5S_ALL plist (Some data)) s1;
            s3 = (if mpi this then native_void (H5Pclose plist) s2 else s2)
        in Inr s3)"

definition write_data_matrix ::
  "DataSet \<Rightarrow> 'a FullMatrix \<Rightarrow> 'a h5_state \<Rightarrow> error + 'a h5_state" where
  "write_data_matrix this data s =
     AssertDimension (total_size this) (size_t_times (FM_m data) (FM_n data))
       (let (plist, s1) =
              (if mpi this
               then (let (p, sa) = native_ret (H5Pcreate H5P_DATASET_XFER) s
                     in (p, native_void (H5Pset_dxpl_mpio p H5FD_MPIO_COLLECTIVE) sa))
               else (H5P_DEFAULT, s));
            s2 = native_void
                   (H5Dwrite (deref s1 (hdf5_reference this)) (deref s1 (t_type this))
                      H5S_ALL H5S_ALL plist (Some (FM_values data))) s1;
            s3 = (if mpi this then native_void (H5Pclose plist) s2 else s2)
        in Inr s3)"

definition write_data_selection ::
  "DataSet \<Rightarrow> 'a list \<Rightarrow> hsize_t list \<Rightarrow> 'a h5_state \<Rightarrow> error + 'a h5_state" where
  "write_data_selection this data coordinates s =
     AssertDimension (length coordinates) (size_t_times (length data) (rank this))
       (let data_dimensions = [of_nat (length data)];
            (memory_dataspace, s1) = native_ret (H5Screate_simple 1 data_dimensions None) s;
            s2 = native_void
                   (H5Sselect_elements (deref s1 (dataspace this)) H5S_SELECT_SET
                      (length data) coordinates) s1;
            (plist, s3) =
              (if mpi this
               then (let (p, sa) = native_ret (H5Pcreate H5P_DATASET_XFER) s2
                     in (p, native_void (H5Pset_dxpl_mpio p H5FD_MPIO_COLLECTIVE) sa))
               else (H5P_DEFAULT, s2));
            s4 = native_void
                   (H5Dwrite (deref s3 (hdf5_reference this)) (deref s3 (t_type this))
                      memory_dataspace (deref s3 (dataspace this)) plist (Some data)) s3;
            s5 = (if mpi this then native_void (H5Pclose plist) s4 else s4)
        in Inr (native_void (H5Sclose memory_dataspace) s5))"

text \<open>
  \<^verbatim>\<open>std::accumulate(count.begin(), count.end(), 1, std::multiplies<unsigned int>())\<close>.
  The initial value is the literal \<^verbatim>\<open>1\<close> of type \<^verbatim>\<open>int\<close>, so the accumulator and
  the result have type \<^verbatim>\<open>int\<close>. Every step converts the accumulator and the
  64-bit element to \<^verbatim>\<open>unsigned int\<close>, multiplies modulo \<open>2 ^ 32\<close> and converts
  the product back to \<^verbatim>\<open>int\<close>. The conversions between \<^verbatim>\<open>int\<close> and
  \<^verbatim>\<open>unsigned int\<close> keep the 32 bits, so one 32-bit word stands for both; the
  result is read as a signed number when \<^verbatim>\<open>AssertDimension\<close> compares it with a
  \<^verbatim>\<open>std::size_t\<close>, which converts it to 64 bits by sign extension.
\<close>

definition multiplies_unsigned_int :: "32 word \<Rightarrow> 32 word \<Rightarrow> 32 word" where
  "multiplies_unsigned_int x y = x * y"

definition accumulate_multiplies :: "hsize_t list \<Rightarrow> 32 word" where
  "accumulate_multiplies count =
     foldl (\<lambda>acc c. multiplies_unsigned_int acc (ucast c)) 1 count"

definition int_to_size_t :: "32 word \<Rightarrow> nat" where
  "int_to_size_t i = unat (scast i :: 64 word)"

definition write_data_hyperslab ::
  "DataSet \<Rightarrow> 'a list \<Rightarrow> hsize_t list \<Rightarrow> hsize_t list \<Rightarrow> 'a h5_state
   \<Rightarrow> error + 'a h5_state" where
  "write_data_hyperslab this data offset count s =
     AssertDimension (int_to_size_t (accumulate_multiplies count)) (length data)
       (let data_dimensions = [of_nat (length data)];
            (memory_dataspace, s1) = native_ret (H5Screate_simple 1 data_dimensions None) s;
            s2 = native_void
                   (H5Sselect_hyperslab (deref s1 (dataspace this)) H5S_SELECT_SET
                      offset None count None) s1;
            (plist, s3) =
              (if mpi this
               then (let (p, sa) = native_ret (H5Pcreate H5P_DATASET_XFER) s2
                     in (p, native_void (H5Pset_dxpl_mpio p H5FD_MPIO_COLLECTIVE) sa))
               else (H5P_DEFAULT, s2));
            s4 = native_void
                   (H5Dwrite (deref s3 (hdf5_reference this)) (deref s3 (t_type this))
                      memory_dataspace (deref s3 (dataspace this)) plist (Some data)) s3;
            s5 = (if mpi this then native_void (H5Pclose plist) s4 else s4)
        in Inr (native_void (H5Sclose memory_dataspace) s5))"

definition write_data_hyperslab_matrix ::
  "DataSet \<Rightarrow> 'a FullMatrix \<Rightarrow> hsize_t list \<Rightarrow> hsize_t list \<Rightarrow> 'a h5_state
   \<Rightarrow> error + 'a h5_state" where
  "write_data_hyperslab_matrix this data offset count s =
     AssertDimension (int_to_size_t (accumulate_multiplies count))
         (size_t_times (FM_m data) (FM_n data))
       (let data_dimensions = [of_nat (FM_m data), of_nat (FM_n data)];
            (memory_dataspace, s1) = native_ret (H5Screate_simple 2 data_dimensions None) s;
            s2 = native_void
                   (H5Sselect_hyperslab (deref s1 (dataspace this)) H5S_SELECT_SET
                      offset None count None) s1;
            (plist, s3) =
              (if mpi this
               then (let (p, sa) = native_ret (H5Pcreate H5P_DATASET_XFER) s2
                     in (p, native_void (H5Pset_dxpl_mpio p H5FD_MPIO_COLLECTIVE) sa))
               else (H5P_DEFAULT, s2));
            s4 = native_void
                   (H5Dwrite (deref s3 (hdf5_reference this)) (deref s3 (t_type this))
                      memory_dataspace (deref s3 (dataspace this)) plist
                      (Some (FM_values data))) s3;
            s5 = (if mpi this then native_void (H5Pclose plist) s4 else s4)
        in Inr (native_void (H5Sclose memory_dataspace) s5))"


section \<open>Groups and files\<close>

definition Group_ctor ::
  "string \<Rightarrow> Group \<Rightarrow> bool \<Rightarrow> Mode \<Rightarrow> 'a h5_state \<Rightarrow> error + (Group \<times> 'a h5_state)" where
  "Group_ctor nm parentGroup mpi_flag mode s =
     (let (href, s1) = new_hid_t Close_G s;
          this = \<lparr>name = nm, mpi = mpi_flag, hdf5_reference = href\<rparr>
      in case mode of
           Mode_create \<Rightarrow>
             (let (h, s2) = native_ret
                              (H5Gcreate2 (deref s1 (hdf5_reference parentGroup)) nm
                                 H5P_DEFAULT H5P_DEFAULT H5P_DEFAULT) s1
              in Inr (this, store href h s2))
         | Mode_open \<Rightarrow>
             (let (h, s2) = native_ret
                              (H5Gopen2 (deref s1 (hdf5_reference parentGroup)) nm
                                 H5P_DEFAULT) s1
              in Inr (this, store href h s2))
         | Mode_other \<Rightarrow> Assert False ExcInternalError (Inr (this, s1)))"

text \<open>
  \<^verbatim>\<open>Group::group\<close>, which opens an existing child group by name, is \<open>group_open\<close>
  here: the name \<open>group\<close> is taken in the logic.
\<close>

definition group_open :: "string \<Rightarrow> Group \<Rightarrow> 'a h5_state \<Rightarrow> error + (Group \<times> 'a h5_state)" where
  "group_open nm this s = Group_ctor nm this (mpi this) Mode_open s"

definition create_group ::
  "string \<Rightarrow> Group \<Rightarrow> 'a h5_state \<Rightarrow> error + (Group \<times> 'a h5_state)" where
  "create_group nm this s = Group_ctor nm this (mpi this) Mode_create s"

definition create_dataset ::
  "nat \<Rightarrow> T \<Rightarrow> string \<Rightarrow> hsize_t list \<Rightarrow> Group \<Rightarrow> 'a h5_state
   \<Rightarrow> error + (DataSet \<times> 'a h5_state)" where
  "create_dataset bits t nm dims this s =
     DataSet_ctor bits t nm (deref s (hdf5_reference this)) dims (mpi this) Mode_create s"

text \<open>
  The two overloads of \<^verbatim>\<open>Group::write_dataset\<close>. The dataset is a local object: when
  the write has returned, it goes out of scope and its destructor runs.
\<close>

definition write_dataset ::
  "nat \<Rightarrow> T \<Rightarrow> string \<Rightarrow> 'a list \<Rightarrow> Group \<Rightarrow> 'a h5_state \<Rightarrow> error + 'a h5_state" where
  "write_dataset bits t nm data this s =
     (let dims = [of_nat (length data)]
      in case create_dataset bits t nm dims this s of
           Inl e \<Rightarrow> Inl e
         | Inr (dataset, s1) \<Rightarrow>
             (case write_data dataset data s1 of
                Inl e \<Rightarrow> Inl e
              | Inr s2 \<Rightarrow> Inr (DataSet_dtor dataset s2)))"

definition write_dataset_matrix ::
  "nat \<Rightarrow> T \<Rightarrow> string \<Rightarrow> 'a FullMatrix \<Rightarrow> Group \<Rightarrow> 'a h5_state \<Rightarrow> error + 'a h5_state" where
  "write_dataset_matrix bits t nm data this s =
     (let dims = [of_nat (FM_m data), of_nat (FM_n data)]
      in case create_dataset bits t nm dims this s of
           Inl e \<Rightarrow> Inl e
         | Inr (dataset, s1) \<Rightarrow>
             (case write_data_matrix dataset data s1 of
                Inl e \<Rightarrow> Inl e
              | Inr s2 \<Rightarrow> Inr (DataSet_dtor dataset s2)))"

definition File_ctor ::
  "string \<Rightarrow> bool \<Rightarrow> MPI_Comm \<Rightarrow> Mode \<Rightarrow> 'a h5_state \<Rightarrow> error + (File \<times> 'a h5_state)" where
  "File_ctor nm mpi_flag mpi_communicator mode s =
     (let (href, s1) = new_hid_t Close_F s;
          this = \<lparr>name = nm, mpi = mpi_flag, hdf5_reference = href\<rparr>;
          info = MPI_INFO_NULL;
          (plist, s2) =
            (if mpi_flag
             then (let (p, sa) = native_ret (H5Pcreate H5P_FILE_ACCESS) s1
                   in (p, native_void (H5Pset_fapl_mpio p mpi_communicator info) sa))
             else (H5P_DEFAULT, s1))
      in case mode of
           Mode_create \<Rightarrow>
             (let (h, s3) = native_ret (H5Fcreate nm H5F_ACC_TRUNC H5P_DEFAULT plist) s2;
                  s4 = store href h s3
              in Inr (this, if mpi_flag then native_void (H5Pclose plist) s4 else s4))
         | Mode_open \<Rightarrow>
             (let (h, s3) = native_ret (H5Fopen nm H5F_ACC_RDWR plist) s2;
                  s4 = store href h s3
              in Inr (this, if mpi_flag then native_void (H5Pclose plist) s4 else s4))
         | Mode_other \<Rightarrow> Assert False ExcInternalError (Inr (this, s2)))"

section \<open>Vocabulary for the statements\<close>

text \<open>
  The events of a write that is issued under the transfer context the flag asks for:
  with the flag set, a transfer property list is created (the library issues
  \<open>Handle k\<close> for it), it is set to collective mode, the write \<open>wr\<close> is given this
  list, and the list is closed; without the flag there is the write alone, given the
  default property list.
\<close>

definition transfer_wrapped :: "bool \<Rightarrow> nat \<Rightarrow> (hid_t \<Rightarrow> 'a native_call) \<Rightarrow> 'a event list" where
  "transfer_wrapped mpi_flag k wr =
     (if mpi_flag
      then [(H5Pcreate H5P_DATASET_XFER, Some (Handle k)),
            (H5Pset_dxpl_mpio (Handle k) H5FD_MPIO_COLLECTIVE, None),
            (wr (Handle k), None),
            (H5Pclose (Handle k), None)]
      else [(wr H5P_DEFAULT, None)])"

text \<open>The state after the library has issued \<open>k\<close> identifiers and recorded \<open>evs\<close>.\<close>

definition issue :: "nat \<Rightarrow> 'a event list \<Rightarrow> 'a h5_state \<Rightarrow> 'a h5_state" where
  "issue k evs s = s\<lparr>next_hid := next_hid s + k, trace := trace s @ evs\<rparr>"

text \<open>
  A file created for collective I/O in the initial state, and a dataset of two by three
  complex numbers created under it: the concrete inputs of the instances below.
\<close>

definition sample_file :: "File \<times> nat h5_state" where
  "sample_file = projr (File_ctor ''f.h5'' True (Communicator 0) Mode_create init_state)"

definition sample_dataset :: "DataSet \<times> nat h5_state" where
  "sample_dataset =
     projr (create_dataset 32 T_complex_double ''d'' [2, 3] (fst sample_file) (snd sample_file))"

text \<open>
  The product of the extents of a hyperslab, reduced modulo \<open>2 ^ 32\<close>.
\<close>

definition truncated_product :: "hsize_t list \<Rightarrow> nat" where
  "truncated_product count = prod_list (map unat count) mod 2 ^ 32"

text \<open>
  The sequence a caller would otherwise issue by hand, in the words of the spec: the
  dimensions are derived from the buffer (the length for a flat sequence, the row and
  column counts for a matrix), the dataset is created, a full-array write is performed
  on it, and the dataset object reaches the end of its scope.
\<close>

definition buffer_dimensions :: "'a list \<Rightarrow> hsize_t list" where
  "buffer_dimensions data = [of_nat (length data)]"

definition matrix_dimensions :: "'a FullMatrix \<Rightarrow> hsize_t list" where
  "matrix_dimensions mat = [of_nat (FM_m mat), of_nat (FM_n mat)]"

definition create_then_write ::
  "nat \<Rightarrow> T \<Rightarrow> string \<Rightarrow> hsize_t list \<Rightarrow> (DataSet \<Rightarrow> 'a h5_state \<Rightarrow> error + 'a h5_state)
   \<Rightarrow> Group \<Rightarrow> 'a h5_state \<Rightarrow> error + 'a h5_state" where
  "create_then_write bits t nm dims full_array_write g s =
     (case create_dataset bits t nm dims g s of
        Inl e \<Rightarrow> Inl e
      | Inr (ds, s1) \<Rightarrow>
          (case full_array_write ds s1 of
             Inl e \<Rightarrow> Inl e
           | Inr s2 \<Rightarrow> Inr (DataSet_dtor ds s2)))"

section \<open>The primitives and the write operations, evaluated\<close>

lemmas prim_defs = new_hid_t_def native_ret_def native_void_def store_def deref_def
  Assert_def AssertDimension_def transfer_wrapped_def issue_def

lemma write_data_eq:
  "write_data this data s =
     (if total_size this = length data
      then Inr (issue (if mpi this then 1 else 0)
             (transfer_wrapped (mpi this) (next_hid s)
                (\<lambda>p. H5Dwrite (deref s (hdf5_reference this)) (deref s (t_type this))
                       H5S_ALL H5S_ALL p (Some data))) s)
      else Inl (ExcDimensionMismatch (total_size this) (length data)))"
  by (simp add: write_data_def prim_defs)

lemma write_data_matrix_eq:
  "write_data_matrix this data s =
     (if total_size this = size_t_times (FM_m data) (FM_n data)
      then Inr (issue (if mpi this then 1 else 0)
             (transfer_wrapped (mpi this) (next_hid s)
                (\<lambda>p. H5Dwrite (deref s (hdf5_reference this)) (deref s (t_type this))
                       H5S_ALL H5S_ALL p (Some (FM_values data)))) s)
      else Inl (ExcDimensionMismatch (total_size this) (size_t_times (FM_m data) (FM_n data))))"
  by (simp add: write_data_matrix_def prim_defs)

lemma write_data_selection_eq:
  "write_data_selection this data coordinates s =
     (if length coordinates = size_t_times (length data) (rank this)
      then Inr (issue (if mpi this then 2 else 1)
             ([(H5Screate_simple 1 [of_nat (length data)] None, Some (Handle (next_hid s))),
               (H5Sselect_elements (deref s (dataspace this)) H5S_SELECT_SET (length data)
                  coordinates, None)]
              @ transfer_wrapped (mpi this) (Suc (next_hid s))
                  (\<lambda>p. H5Dwrite (deref s (hdf5_reference this)) (deref s (t_type this))
                         (Handle (next_hid s)) (deref s (dataspace this)) p (Some data))
              @ [(H5Sclose (Handle (next_hid s)), None)]) s)
      else Inl (ExcDimensionMismatch (length coordinates)
                  (size_t_times (length data) (rank this))))"
  by (simp add: write_data_selection_def prim_defs)

lemma write_data_hyperslab_eq:
  "write_data_hyperslab this data offset count s =
     (if int_to_size_t (accumulate_multiplies count) = length data
      then Inr (issue (if mpi this then 2 else 1)
             ([(H5Screate_simple 1 [of_nat (length data)] None, Some (Handle (next_hid s))),
               (H5Sselect_hyperslab (deref s (dataspace this)) H5S_SELECT_SET offset None
                  count None, None)]
              @ transfer_wrapped (mpi this) (Suc (next_hid s))
                  (\<lambda>p. H5Dwrite (deref s (hdf5_reference this)) (deref s (t_type this))
                         (Handle (next_hid s)) (deref s (dataspace this)) p (Some data))
              @ [(H5Sclose (Handle (next_hid s)), None)]) s)
      else Inl (ExcDimensionMismatch (int_to_size_t (accumulate_multiplies count))
                  (length data)))"
  by (simp add: write_data_hyperslab_def prim_defs)

lemma write_data_hyperslab_matrix_eq:
  "write_data_hyperslab_matrix this data offset count s =
     (if int_to_size_t (accumulate_multiplies count) = size_t_times (FM_m data) (FM_n data)
      then Inr (issue (if mpi this then 2 else 1)
             ([(H5Screate_simple 2 [of_nat (FM_m data), of_nat (FM_n data)] None,
                  Some (Handle (next_hid s))),
               (H5Sselect_hyperslab (deref s (dataspace this)) H5S_SELECT_SET offset None
                  count None, None)]
              @ transfer_wrapped (mpi this) (Suc (next_hid s))
                  (\<lambda>p. H5Dwrite (deref s (hdf5_reference this)) (deref s (t_type this))
                         (Handle (next_hid s)) (deref s (dataspace this)) p
                         (Some (FM_values data)))
              @ [(H5Sclose (Handle (next_hid s)), None)]) s)
      else Inl (ExcDimensionMismatch (int_to_size_t (accumulate_multiplies count))
                  (size_t_times (FM_m data) (FM_n data))))"
  by (simp add: write_data_hyperslab_matrix_def prim_defs)


lemma sample_file_eq:
  "sample_file =
     (\<lparr>name = ''f.h5'', mpi = True, hdf5_reference = 0\<rparr>,
      \<lparr>cells = (\<lambda>_. None)(0 \<mapsto> \<lparr>cell_value = Handle 1, cell_deleter = Close_F,
                                  cell_use_count = 1\<rparr>),
       next_addr = 1, next_hid = 2,
       trace = [(H5Pcreate H5P_FILE_ACCESS, Some (Handle 0)),
                (H5Pset_fapl_mpio (Handle 0) (Communicator 0) MPI_INFO_NULL, None),
                (H5Fcreate ''f.h5'' H5F_ACC_TRUNC H5P_DEFAULT (Handle 0), Some (Handle 1)),
                (H5Pclose (Handle 0), None)]\<rparr>)"
  by (simp add: sample_file_def File_ctor_def init_state_def prim_defs)

lemma sample_dataset_fields:
  "mpi (fst sample_dataset) = True"
  "total_size (fst sample_dataset) = 6"
  "rank (fst sample_dataset) = 2"
  "hdf5_reference (fst sample_dataset) = 2"
  "dataspace (fst sample_dataset) = 3"
  "t_type (fst sample_dataset) = 1"
  by (simp_all add: sample_dataset_def sample_file_eq create_dataset_def DataSet_ctor_def
        get_hdf5_datatype_def compute_total_size_def times_assign_def prim_defs)

lemma sample_dataset_state:
  "next_hid (snd sample_dataset) = 5"
  "next_addr (snd sample_dataset) = 4"
  "deref (snd sample_dataset) 2 = Handle 4"
  "deref (snd sample_dataset) 3 = Handle 3"
  "deref (snd sample_dataset) 1 = Handle 2"
  by (simp_all add: sample_dataset_def sample_file_eq create_dataset_def DataSet_ctor_def
        get_hdf5_datatype_def compute_total_size_def times_assign_def prim_defs)

section \<open>The constructor of a dataset\<close>

lemma ctor_cells:
  assumes "DataSet_ctor bits t nm parent dims mpi_flag mode s = Inr (this, s1)"
  shows "t_type this = next_addr s \<and> hdf5_reference this = Suc (next_addr s)
         \<and> dataspace this = Suc (Suc (next_addr s))
         \<and> (\<exists>v. cells s1 (Suc (next_addr s)) =
                  Some \<lparr>cell_value = v, cell_deleter = Close_D, cell_use_count = 1\<rparr>)
         \<and> (\<exists>v. cells s1 (Suc (Suc (next_addr s))) =
                  Some \<lparr>cell_value = v, cell_deleter = Close_S, cell_use_count = 1\<rparr>)
         \<and> (\<exists>v. cells s1 (next_addr s) =
                  Some \<lparr>cell_value = v,
                        cell_deleter = (if complex_base t = None then Delete_only else Close_T),
                        cell_use_count = 1\<rparr>)"
  using assms
  by (cases t; cases mode)
     (auto simp add: DataSet_ctor_def get_hdf5_datatype_def prim_defs)

lemma power_dvd_64: "bits \<le> 64 \<Longrightarrow> (2::nat) ^ bits dvd 2 ^ 64"
  by (rule le_imp_power_dvd)

lemma times_assign_mod:
  assumes "bits \<le> 64"
  shows "times_assign bits a d = (a * unat d) mod 2 ^ bits"
  unfolding times_assign_def
  by (rule mod_mod_cancel) (rule power_dvd_64 [OF assms])

lemma foldl_times_assign:
  assumes "bits \<le> 64"
  shows "foldl (times_assign bits) a (d # ds)
           = (a * prod_list (map unat (d # ds))) mod 2 ^ bits"
proof (induction ds arbitrary: a d)
  case Nil
  show ?case by (simp add: times_assign_mod [OF assms])
next
  case (Cons e es)
  have "foldl (times_assign bits) a (d # e # es)
          = foldl (times_assign bits) (times_assign bits a d) (e # es)"
    by simp
  also have "\<dots> = (((a * unat d) mod 2 ^ bits) * prod_list (map unat (e # es))) mod 2 ^ bits"
    unfolding Cons.IH times_assign_mod [OF assms] ..
  also have "\<dots> = ((a * unat d) * prod_list (map unat (e # es))) mod 2 ^ bits"
    by (rule mod_mult_left_eq)
  finally show ?case by (simp add: mult.assoc)
qed

lemma compute_total_size_exact:
  assumes "bits \<le> 64" and "prod_list (map unat dims) < 2 ^ bits"
  shows "compute_total_size bits dims = prod_list (map unat dims)"
proof (cases dims)
  case Nil
  then show ?thesis by (simp add: compute_total_size_def)
next
  case (Cons d ds)
  with assms show ?thesis
    by (simp only: compute_total_size_def foldl_times_assign [OF assms(1)]) simp
qed

lemma ctor_total_size:
  assumes "DataSet_ctor bits t nm parent dims mpi_flag mode s = Inr (this, s1)"
  shows "total_size this = compute_total_size bits dims" "mpi this = mpi_flag"
    "rank this = length dims" "dimensions this = dims"
  using assms
  by (auto simp add: DataSet_ctor_def Let_def split_def Assert_def
        split: sum.splits Mode.splits)

section \<open>The sign extension of a 32-bit value to 64 bits\<close>

lemma sint_32_cases:
  fixes w :: "32 word"
  shows "sint w = (if uint w < 2147483648 then uint w else uint w - 4294967296)"
proof -
  have b: "0 \<le> uint w" "uint w < 4294967296"
    using uint_lt2p [of w] by simp_all
  have e: "sint w = (uint w + 2147483648) mod 4294967296 - 2147483648"
    by (simp add: sint_uint signed_take_bit_eq_take_bit_shift take_bit_eq_mod)
  show ?thesis
  proof (cases "uint w < 2147483648")
    case True
    with b have "(uint w + 2147483648) mod 4294967296 = uint w + 2147483648"
      by (intro mod_pos_pos_trivial) simp_all
    with e True show ?thesis by simp
  next
    case False
    have "(uint w + 2147483648) mod 4294967296
            = (uint w + 2147483648 - 4294967296) mod 4294967296"
      by (simp only: minus_mod_self2)
    also from b False have "\<dots> = uint w + 2147483648 - 4294967296"
      by (intro mod_pos_pos_trivial) simp_all
    finally show ?thesis using e False by simp
  qed
qed

lemma uint_scast_mod: "uint (scast (w :: 32 word) :: 64 word) = sint w mod 18446744073709551616"
  unfolding scast_eq uint_word_of_int by simp

lemma uint_scast_32_64:
  fixes w :: "32 word"
  shows "uint (scast w :: 64 word) =
      (if uint w < 2147483648 then uint w else uint w + 18446744069414584320)"
proof -
  have b: "0 \<le> uint w" "uint w < 4294967296"
    using uint_lt2p [of w] by simp_all
  show ?thesis
  proof (cases "uint w < 2147483648")
    case True
    with b have "uint w mod 18446744073709551616 = uint w"
      by (intro mod_pos_pos_trivial) simp_all
    with True show ?thesis by (simp add: uint_scast_mod sint_32_cases)
  next
    case False
    have "(uint w - 4294967296) mod 18446744073709551616
            = (uint w - 4294967296 + 18446744073709551616) mod 18446744073709551616"
      by (simp only: mod_add_self2)
    also from b False have "\<dots> = uint w - 4294967296 + 18446744073709551616"
      by (intro mod_pos_pos_trivial) simp_all
    finally show ?thesis using False by (simp add: uint_scast_mod sint_32_cases)
  qed
qed

lemma int_to_size_t_eq:
  "int_to_size_t w =
     (if unat w < 2147483648 then unat w else unat w + 18446744069414584320)"
proof -
  define x where "x = unat w"
  define y where "y = int_to_size_t w"
  have ux: "uint w = int x"
    by (simp add: x_def)
  have uy: "uint (scast w :: 64 word) = int y"
    by (simp add: y_def int_to_size_t_def)
  have "int y = (if int x < 2147483648 then int x else int x + 18446744069414584320)"
    using uint_scast_32_64 [of w] unfolding ux uy .
  then have "y = (if x < 2147483648 then x else x + 18446744069414584320)"
    by (cases "x < 2147483648") simp_all
  then show ?thesis
    unfolding x_def y_def .
qed

section \<open>The sample file and dataset\<close>

lemma sample_dataset_created:
  "DataSet_ctor 32 T_complex_double ''d'' (Handle 1) [2, 3] True Mode_create (snd sample_file)
     = Inr (fst sample_dataset, snd sample_dataset)"
  by (simp add: sample_dataset_def sample_file_eq create_dataset_def DataSet_ctor_def
        get_hdf5_datatype_def prim_defs)

lemma sample_file_fields:
  "hdf5_reference (fst sample_file) = 0" "mpi (fst sample_file) = True"
  "next_addr (snd sample_file) = 1" "deref (snd sample_file) 0 = Handle 1"
  by (simp_all add: sample_file_eq deref_def)

lemma sample_dataset_via_group:
  "create_dataset 32 T_complex_double ''d'' [2, 3] (fst sample_file) (snd sample_file)
     = Inr (fst sample_dataset, snd sample_dataset)"
  by (simp add: sample_dataset_def sample_file_eq create_dataset_def DataSet_ctor_def
        get_hdf5_datatype_def prim_defs)

lemma sample_write_dataset_returns:
  "\<not> isl (write_dataset 32 T_double ''v'' [1, 2, 3 :: nat] (fst sample_file) (snd sample_file))"
  "\<not> isl (write_dataset_matrix 32 T_double ''m''
            \<lparr>FM_m = 1, FM_n = 2, FM_values = [7, 8 :: nat]\<rparr> (fst sample_file)
            (snd sample_file))"
  by (simp_all add: write_dataset_def write_dataset_matrix_def sample_file_eq create_dataset_def
        DataSet_ctor_def get_hdf5_datatype_def compute_total_size_def times_assign_def
        write_data_eq write_data_matrix_eq size_t_times_def prim_defs Let_def)

section \<open>Giving up a cell\<close>

lemma reset_sole_owner:
  assumes "cells s p = Some \<lparr>cell_value = v, cell_deleter = d, cell_use_count = 1\<rparr>"
  shows "reset p s = (run_deleter d v s)\<lparr>cells := (cells s)(p := None)\<rparr>"
  using assms by (simp add: reset_def)

lemma run_deleter_simps:
  "cells (run_deleter d v s) = cells s"
  "trace (run_deleter d v s) =
     trace s @ (case d of Delete_only \<Rightarrow> [] | Close_T \<Rightarrow> [(H5Tclose v, None)]
                | Close_D \<Rightarrow> [(H5Dclose v, None)] | Close_S \<Rightarrow> [(H5Sclose v, None)]
                | Close_G \<Rightarrow> [(H5Gclose v, None)] | Close_F \<Rightarrow> [(H5Fclose v, None)])"
  by (simp_all add: run_deleter_def native_void_def split: closer.splits)

lemma cells_reset_other: "p \<noteq> q \<Longrightarrow> cells (reset q s) p = cells s p"
  by (simp add: reset_def run_deleter_simps split: option.splits)

section \<open>Cells that an operation leaves alone\<close>

lemma ctor_keeps_old_cells:
  assumes "DataSet_ctor bits t nm parent dims mpi_flag mode s = Inr (this, s1)"
      and "p < next_addr s"
  shows "cells s1 p = cells s p"
  using assms
  by (cases t; cases mode)
     (auto simp add: DataSet_ctor_def get_hdf5_datatype_def prim_defs)

lemma Group_ctor_eq:
  assumes "mode \<noteq> Mode_other" and "p < next_addr s"
  shows "\<exists>c s'. Group_ctor nm g mpi_flag mode s = Inr (c, s')
           \<and> mpi c = mpi_flag \<and> name c = nm \<and> hdf5_reference c = next_addr s
           \<and> cells s' p = cells s p"
  using assms
  by (cases mode) (auto simp add: Group_ctor_def prim_defs)

lemma dtor_keeps_other_cells:
  assumes "p \<noteq> hdf5_reference this" "p \<noteq> dataspace this" "p \<noteq> t_type this"
  shows "cells (DataSet_dtor this s) p = cells s p"
  using assms by (simp add: DataSet_dtor_def cells_reset_other)

lemma write_data_cells:
  "write_data this data s = Inr s' \<Longrightarrow> cells s' = cells s"
  "write_data_matrix this mat s = Inr s' \<Longrightarrow> cells s' = cells s"
  by (auto simp add: write_data_eq write_data_matrix_eq issue_def split: if_splits)

lemma create_then_write_cells:
  assumes "create_then_write bits t nm dims w g s = Inr s'"
      and "\<And>ds a b. w ds a = Inr b \<Longrightarrow> cells b = cells a"
      and "p < next_addr s"
  shows "cells s' p = cells s p"
proof -
  from assms(1) obtain ds s1 s2 where
    c: "DataSet_ctor bits t nm (deref s (hdf5_reference g)) dims (mpi g) Mode_create s
          = Inr (ds, s1)"
    and w: "w ds s1 = Inr s2" and e: "s' = DataSet_dtor ds s2"
    by (auto simp add: create_then_write_def create_dataset_def split: sum.splits)
  from ctor_cells [OF c] assms(3) have
    "p \<noteq> hdf5_reference ds" "p \<noteq> dataspace ds" "p \<noteq> t_type ds"
    by simp_all
  then have "cells s' p = cells s2 p"
    unfolding e by (rule dtor_keeps_other_cells)
  also have "\<dots> = cells s1 p"
    using assms(2) [OF w] by simp
  also have "\<dots> = cells s p"
    by (rule ctor_keeps_old_cells [OF c assms(3)])
  finally show ?thesis .
qed

lemma write_dataset_unfold:
  "write_dataset bits t nm data g s
     = create_then_write bits t nm [of_nat (length data)] (\<lambda>ds. write_data ds data) g s"
  "write_dataset_matrix bits t nm mat g s
     = create_then_write bits t nm [of_nat (FM_m mat), of_nat (FM_n mat)]
         (\<lambda>ds. write_data_matrix ds mat) g s"
  by (simp_all add: write_dataset_def write_dataset_matrix_def create_then_write_def)

section \<open>The element count a hyperslab write expects\<close>

lemma accumulate_multiplies_foldl:
  "foldl (\<lambda>acc c. multiplies_unsigned_int acc (ucast c)) a count
     = a * (of_nat (prod_list (map unat count)) :: 32 word)"
  by (induction count arbitrary: a) (simp_all add: multiplies_unsigned_int_def algebra_simps)

lemma unat_accumulate_multiplies:
  "unat (accumulate_multiplies count) = truncated_product count"
  by (simp add: accumulate_multiplies_def accumulate_multiplies_foldl unat_of_nat
        truncated_product_def)

lemma accumulate_example:
  "int_to_size_t (accumulate_multiplies [2147483648, 3]) = 18446744071562067968"
  by (simp add: int_to_size_t_def accumulate_multiplies_def multiplies_unsigned_int_def)


section \<open>Opening a dataset\<close>

text \<open>
  Claim C1 says that a dataset constructed in open mode on the name of an existing
  dataset stores the dataset handle for that name, and that its dataspace handle is
  then derived from it. The constructor does neither. Evaluated on the dataset \<open>d\<close>
  that was created under the sample file: after the type descriptor has been built,
  the only call is \<^verbatim>\<open>H5Gopen2\<close>, the call that opens a group, on the file's handle and
  the name; its result is what the object's handle cell holds (a cell whose deleter
  closes a dataset); and the dataspace cell is left with the indeterminate content it
  was allocated with.
\<close>

theorem dataset_open_calls_group_open:
  "(case DataSet_ctor 32 T_complex_double ''d''
           (deref (snd sample_dataset) (hdf5_reference (fst sample_file))) [2, 3] True
           Mode_open (snd sample_dataset) of
      Inl e \<Rightarrow> False
    | Inr (this, s1) \<Rightarrow>
        trace s1 = trace (snd sample_dataset) @
          [(H5Tcreate H5T_COMPOUND 16, Some (Handle 5)),
           (H5Tinsert (Handle 5) ''r'' 0 H5T_NATIVE_DOUBLE, None),
           (H5Tinsert (Handle 5) ''i'' 8 H5T_NATIVE_DOUBLE, None),
           (H5Gopen2 (Handle 1) ''d'' H5P_DEFAULT, Some (Handle 6))]
        \<and> cells s1 (hdf5_reference this) =
            Some \<lparr>cell_value = Handle 6, cell_deleter = Close_D, cell_use_count = 1\<rparr>
        \<and> cells s1 (dataspace this) =
            Some \<lparr>cell_value = Indeterminate, cell_deleter = Close_S, cell_use_count = 1\<rparr>)"
  by (simp add: sample_dataset_def sample_file_eq create_dataset_def DataSet_ctor_def
        get_hdf5_datatype_def compute_total_size_def times_assign_def prim_defs
        sizeof_complex_double_def sizeof_double_def)

section \<open>The full-array write\<close>

text \<open>
  Claim C2, amended. For a dataset constructed with dimensions whose product is
  representable in the type of \<open>total_size\<close> (an unsigned type of \<open>bits\<close> bits, at most
  64), \<open>total_size\<close> is the product of the dimensions, and both forms of the
  full-array write check the buffer against it. The write from a vector fails its
  assertion exactly when the vector's length differs from that product. The write
  from a matrix, whose element count is its row count times its column count,
  representable as a size, fails its assertion exactly when that element count
  differs from the product. When the counts are equal, either form issues one write
  of the whole buffer with the selection \<^verbatim>\<open>H5S_ALL\<close> in memory and in the file,
  under the transfer context the flag asks for.
\<close>

theorem full_write_checks_product_of_dimensions:
  assumes "bits \<le> 64"
      and "prod_list (map unat dims) < 2 ^ bits"
      and "DataSet_ctor bits t nm parent dims mpi_flag mode s0 = Inr (this, s1)"
  shows "total_size this = prod_list (map unat dims)
         \<and> (isl (write_data this data s) \<longleftrightarrow> length data \<noteq> prod_list (map unat dims))
         \<and> (length data = prod_list (map unat dims) \<longrightarrow>
              (\<exists>s'. write_data this data s = Inr s'
                 \<and> trace s' = trace s @
                     transfer_wrapped (mpi this) (next_hid s)
                       (\<lambda>p. H5Dwrite (deref s (hdf5_reference this)) (deref s (t_type this))
                              H5S_ALL H5S_ALL p (Some data))))
         \<and> (FM_m mat * FM_n mat < 2 ^ 64 \<longrightarrow>
              (isl (write_data_matrix this mat s)
                 \<longleftrightarrow> FM_m mat * FM_n mat \<noteq> prod_list (map unat dims)))
         \<and> (FM_m mat * FM_n mat = prod_list (map unat dims) \<longrightarrow>
              (\<exists>s'. write_data_matrix this mat s = Inr s'
                 \<and> trace s' = trace s @
                     transfer_wrapped (mpi this) (next_hid s)
                       (\<lambda>p. H5Dwrite (deref s (hdf5_reference this)) (deref s (t_type this))
                              H5S_ALL H5S_ALL p (Some (FM_values mat)))))"
proof -
  have ts: "total_size this = prod_list (map unat dims)"
    using ctor_total_size(1) [OF assms(3)] compute_total_size_exact [OF assms(1,2)] by simp
  have "(2::nat) ^ bits \<le> 2 ^ 64"
    using assms(1) by (intro power_increasing) simp_all
  with assms(2) have small: "prod_list (map unat dims) < 2 ^ 64"
    by (rule less_le_trans)
  have v1: "isl (write_data this data s) \<longleftrightarrow> length data \<noteq> prod_list (map unat dims)"
    using ts by (simp add: write_data_eq)
  have v2: "length data = prod_list (map unat dims) \<longrightarrow>
              (\<exists>s'. write_data this data s = Inr s'
                 \<and> trace s' = trace s @
                     transfer_wrapped (mpi this) (next_hid s)
                       (\<lambda>p. H5Dwrite (deref s (hdf5_reference this)) (deref s (t_type this))
                              H5S_ALL H5S_ALL p (Some data)))"
    using ts by (simp add: write_data_eq issue_def)
  have m1: "FM_m mat * FM_n mat < 2 ^ 64 \<longrightarrow>
              (isl (write_data_matrix this mat s)
                 \<longleftrightarrow> FM_m mat * FM_n mat \<noteq> prod_list (map unat dims))"
  proof
    assume "FM_m mat * FM_n mat < 2 ^ 64"
    then have "size_t_times (FM_m mat) (FM_n mat) = FM_m mat * FM_n mat"
      by (simp add: size_t_times_def)
    then show "isl (write_data_matrix this mat s)
                 \<longleftrightarrow> FM_m mat * FM_n mat \<noteq> prod_list (map unat dims)"
      using ts by (auto simp add: write_data_matrix_eq)
  qed
  have m2: "FM_m mat * FM_n mat = prod_list (map unat dims) \<longrightarrow>
              (\<exists>s'. write_data_matrix this mat s = Inr s'
                 \<and> trace s' = trace s @
                     transfer_wrapped (mpi this) (next_hid s)
                       (\<lambda>p. H5Dwrite (deref s (hdf5_reference this)) (deref s (t_type this))
                              H5S_ALL H5S_ALL p (Some (FM_values mat))))"
  proof
    assume e: "FM_m mat * FM_n mat = prod_list (map unat dims)"
    with small have "size_t_times (FM_m mat) (FM_n mat) = prod_list (map unat dims)"
      by (simp add: size_t_times_def)
    then show "\<exists>s'. write_data_matrix this mat s = Inr s'
                 \<and> trace s' = trace s @
                     transfer_wrapped (mpi this) (next_hid s)
                       (\<lambda>p. H5Dwrite (deref s (hdf5_reference this)) (deref s (t_type this))
                              H5S_ALL H5S_ALL p (Some (FM_values mat)))"
      using ts by (simp add: write_data_matrix_eq issue_def)
  qed
  show ?thesis
    by (intro conjI ts v1 v2 m1 m2)
qed

theorem full_write_checks_product_of_dimensions_witness:
  "(32::nat) \<le> 64
   \<and> prod_list (map unat [2, 3 :: hsize_t]) < 2 ^ 32
   \<and> DataSet_ctor 32 T_complex_double ''d'' (Handle 1) [2, 3] True Mode_create (snd sample_file)
       = Inr (fst sample_dataset, snd sample_dataset)
   \<and> total_size (fst sample_dataset) = 6
   \<and> isl (write_data (fst sample_dataset) [1, 2, 3, 4, 5 :: nat] (snd sample_dataset))
   \<and> \<not> isl (write_data (fst sample_dataset) [1, 2, 3, 4, 5, 6 :: nat] (snd sample_dataset))
   \<and> FM_m \<lparr>FM_m = 1, FM_n = 2, FM_values = [7, 8 :: nat]\<rparr>
         * FM_n \<lparr>FM_m = 1, FM_n = 2, FM_values = [7, 8 :: nat]\<rparr> < 2 ^ 64
   \<and> isl (write_data_matrix (fst sample_dataset)
             \<lparr>FM_m = 1, FM_n = 2, FM_values = [7, 8 :: nat]\<rparr> (snd sample_dataset))
   \<and> FM_m \<lparr>FM_m = 2, FM_n = 3, FM_values = [1, 2, 3, 4, 5, 6 :: nat]\<rparr>
         * FM_n \<lparr>FM_m = 2, FM_n = 3, FM_values = [1, 2, 3, 4, 5, 6 :: nat]\<rparr>
       = prod_list (map unat [2, 3 :: hsize_t])
   \<and> \<not> isl (write_data_matrix (fst sample_dataset)
               \<lparr>FM_m = 2, FM_n = 3, FM_values = [1, 2, 3, 4, 5, 6 :: nat]\<rparr>
               (snd sample_dataset))"
proof -
  have h1: "(32::nat) \<le> 64" by simp
  have h2: "prod_list (map unat [2, 3 :: hsize_t]) < 2 ^ 32" by simp
  note t = full_write_checks_product_of_dimensions [OF h1 h2 sample_dataset_created]
  from t [where data = "[1, 2, 3, 4, 5 :: nat]" and s = "snd sample_dataset"
            and mat = "\<lparr>FM_m = 1, FM_n = 2, FM_values = [7, 8 :: nat]\<rparr>"]
       t [where data = "[1, 2, 3, 4, 5, 6 :: nat]" and s = "snd sample_dataset"
            and mat = "\<lparr>FM_m = 2, FM_n = 3, FM_values = [1, 2, 3, 4, 5, 6 :: nat]\<rparr>"]
  show ?thesis using h2 sample_dataset_created by auto
qed

text \<open>
  As stated, for every list of dimensions, claim C2 fails where the product overflows.
  With a 64-bit \<open>total_size\<close> and the dimensions \<open>2 ^ 32\<close> by \<open>2 ^ 32\<close>, and with a
  32-bit one and the dimensions \<open>2 ^ 16\<close> by \<open>2 ^ 16\<close>, the computed \<open>total_size\<close> is
  0, and the write of an empty buffer passes the assertion although the product of
  the dimensions is not 0.
\<close>

theorem full_write_product_overflow_counterexample:
  "(case create_dataset 64 T_double ''big'' [4294967296, 4294967296] (fst sample_file)
           (snd sample_file) of
      Inl e \<Rightarrow> False
    | Inr (this, s1) \<Rightarrow>
        \<not> isl (write_data this ([] :: nat list) s1)
        \<and> length ([] :: nat list) \<noteq> prod_list (map unat (dimensions this)))
   \<and> (case create_dataset 32 T_double ''big'' [65536, 65536] (fst sample_file)
           (snd sample_file) of
      Inl e \<Rightarrow> False
    | Inr (this, s1) \<Rightarrow>
        \<not> isl (write_data this ([] :: nat list) s1)
        \<and> length ([] :: nat list) \<noteq> prod_list (map unat (dimensions this)))"
  by (simp add: sample_file_eq create_dataset_def DataSet_ctor_def get_hdf5_datatype_def
        compute_total_size_def times_assign_def write_data_eq prim_defs)

section \<open>Transfer contexts of the write operations\<close>



section \<open>The one-shot write of a group\<close>

text \<open>
  Claim C4. \<open>write_dataset\<close>, for a flat vector and for a matrix, does exactly what
  the sequence of the spec does: a dataset is created whose dimensions are the length
  of the vector, or the row and column counts of the matrix; the full-array write of
  the buffer is performed on it; and the dataset object, local to the operation,
  reaches the end of its scope. The results agree in every case, also when the
  creation or the write fails.
\<close>

theorem write_dataset_is_create_then_write:
  "write_dataset bits t nm data g s
     = create_then_write bits t nm (buffer_dimensions data) (\<lambda>ds. write_data ds data) g s
   \<and> write_dataset_matrix bits t nm mat g s
     = create_then_write bits t nm (matrix_dimensions mat) (\<lambda>ds. write_data_matrix ds mat) g s"
  by (simp add: write_dataset_def write_dataset_matrix_def create_then_write_def
        buffer_dimensions_def matrix_dimensions_def)

section \<open>The hyperslab write\<close>

text \<open>
  Claim C5 says that a hyperslab write fails its assertion whenever the buffer's
  element count differs from the product of the extents. The check of the code
  multiplies the extents as 32-bit numbers, so it can pass on a wrong count: for the
  extents \<open>2 ^ 32 + 2\<close> by 1 and any buffer of two elements, on any dataset and in any
  state, the write does not fail; it selects the hyperslab (offset and extents as
  given, no stride and no block) and writes the two elements.
\<close>

theorem hyperslab_write_accepts_wrong_length:
  "length [a, b] \<noteq> prod_list (map unat [4294967298, 1 :: hsize_t])
   \<and> \<not> isl (write_data_hyperslab this [a, b] [0, 0] [4294967298, 1] s)
   \<and> trace (projr (write_data_hyperslab this [a, b] [0, 0] [4294967298, 1] s))
       = trace s @
          [(H5Screate_simple 1 [2] None, Some (Handle (next_hid s))),
           (H5Sselect_hyperslab (deref s (dataspace this)) H5S_SELECT_SET [0, 0] None
              [4294967298, 1] None, None)]
          @ transfer_wrapped (mpi this) (Suc (next_hid s))
              (\<lambda>p. H5Dwrite (deref s (hdf5_reference this)) (deref s (t_type this))
                     (Handle (next_hid s)) (deref s (dataspace this)) p (Some [a, b]))
          @ [(H5Sclose (Handle (next_hid s)), None)]"
proof -
  have "int_to_size_t (accumulate_multiplies [4294967298, 1]) = 2"
    by (simp add: int_to_size_t_def accumulate_multiplies_def multiplies_unsigned_int_def)
  then show ?thesis
    by (simp add: write_data_hyperslab_eq issue_def)
qed

section \<open>The selection write\<close>

text \<open>
  Claim C6. For a selection write of a buffer of \<open>N\<close> elements on a dataset of rank
  \<open>r\<close> (with \<open>N * r\<close> representable as a size), the assertion fails exactly when the
  coordinate list does not have \<open>N * r\<close> entries. When it has, the operation creates a
  one-dimensional memory dataspace of \<open>N\<close> elements, selects on the dataset's own
  dataspace the \<open>N\<close> elements the coordinate list names, and writes the buffer from
  the memory dataspace into that selection.
\<close>

theorem selection_write_checks_length_and_selects:
  assumes "length data * rank this < 2 ^ 64"
  shows "(isl (write_data_selection this data coordinates s)
            \<longleftrightarrow> length coordinates \<noteq> length data * rank this)
         \<and> (length coordinates = length data * rank this \<longrightarrow>
              (\<exists>s'. write_data_selection this data coordinates s = Inr s'
                 \<and> trace s' = trace s @
                     [(H5Screate_simple 1 [of_nat (length data)] None,
                         Some (Handle (next_hid s))),
                      (H5Sselect_elements (deref s (dataspace this)) H5S_SELECT_SET
                         (length data) coordinates, None)]
                     @ transfer_wrapped (mpi this) (Suc (next_hid s))
                         (\<lambda>p. H5Dwrite (deref s (hdf5_reference this)) (deref s (t_type this))
                                (Handle (next_hid s)) (deref s (dataspace this)) p (Some data))
                     @ [(H5Sclose (Handle (next_hid s)), None)]))"
  using assms by (simp add: write_data_selection_eq size_t_times_def issue_def)

theorem selection_write_checks_length_and_selects_witness:
  "length [7, 8 :: nat] * rank (fst sample_dataset) < 2 ^ 64
   \<and> isl (write_data_selection (fst sample_dataset) [7, 8 :: nat] [0, 0, 1]
             (snd sample_dataset))
   \<and> length [0, 0, 1, 2 :: hsize_t] = length [7, 8 :: nat] * rank (fst sample_dataset)
   \<and> (\<exists>s'. write_data_selection (fst sample_dataset) [7, 8 :: nat] [0, 0, 1, 2]
               (snd sample_dataset) = Inr s'
          \<and> trace s' = trace (snd sample_dataset) @
               [(H5Screate_simple 1 [2] None, Some (Handle 5)),
                (H5Sselect_elements (Handle 3) H5S_SELECT_SET (length [7, 8 :: nat])
                   [0, 0, 1, 2], None),
                (H5Pcreate H5P_DATASET_XFER, Some (Handle 6)),
                (H5Pset_dxpl_mpio (Handle 6) H5FD_MPIO_COLLECTIVE, None),
                (H5Dwrite (Handle 4) (Handle 2) (Handle 5) (Handle 3) (Handle 6)
                   (Some [7, 8]), None),
                (H5Pclose (Handle 6), None),
                (H5Sclose (Handle 5), None)])"
proof -
  have h: "length [7, 8 :: nat] * rank (fst sample_dataset) < 2 ^ 64"
    by (simp add: sample_dataset_fields)
  have e: "length [0, 0, 1, 2 :: hsize_t] = length [7, 8 :: nat] * rank (fst sample_dataset)"
    by (simp add: sample_dataset_fields)
  have n: "length [0, 0, 1 :: hsize_t] \<noteq> length [7, 8 :: nat] * rank (fst sample_dataset)"
    by (simp add: sample_dataset_fields)
  note t = selection_write_checks_length_and_selects [OF h]
  from t [of "[0, 0, 1]" "snd sample_dataset"] n
  have a: "isl (write_data_selection (fst sample_dataset) [7, 8 :: nat] [0, 0, 1]
             (snd sample_dataset))"
    by blast
  from t [of "[0, 0, 1, 2]" "snd sample_dataset"] e
  have b: "\<exists>s'. write_data_selection (fst sample_dataset) [7, 8 :: nat] [0, 0, 1, 2]
               (snd sample_dataset) = Inr s'
          \<and> trace s' = trace (snd sample_dataset) @
               [(H5Screate_simple 1 [2] None, Some (Handle 5)),
                (H5Sselect_elements (Handle 3) H5S_SELECT_SET (length [7, 8 :: nat])
                   [0, 0, 1, 2], None),
                (H5Pcreate H5P_DATASET_XFER, Some (Handle 6)),
                (H5Pset_dxpl_mpio (Handle 6) H5FD_MPIO_COLLECTIVE, None),
                (H5Dwrite (Handle 4) (Handle 2) (Handle 5) (Handle 3) (Handle 6)
                   (Some [7, 8]), None),
                (H5Pclose (Handle 6), None),
                (H5Sclose (Handle 5), None)]"
    by (simp del: One_nat_def
          add: transfer_wrapped_def sample_dataset_fields sample_dataset_state)
  show ?thesis
    by (intro conjI h a e b)
qed

section \<open>The type descriptor of a complex type\<close>

text \<open>
  Claim C7. For each of the three complex element types, the resolver allocates a new
  descriptor cell and builds a new compound type of twice the width of the floating
  type under it, with exactly two insertions: the field \<open>r\<close> at byte offset 0 and the
  field \<open>i\<close> at the byte offset that is the width of one field, both of that floating
  type. The cell holds the identifier of the compound type and is bound to the deleter
  that closes a type, so giving up the pointer closes the compound type and frees the
  cell.
\<close>

theorem complex_descriptor_owned_compound:
  assumes "complex_base t = Some (ft, w)"
  shows "\<exists>s'. get_hdf5_datatype t s = Inr (next_addr s, s')
           \<and> trace s' = trace s @
                [(H5Tcreate H5T_COMPOUND (2 * w), Some (Handle (next_hid s))),
                 (H5Tinsert (Handle (next_hid s)) ''r'' 0 ft, None),
                 (H5Tinsert (Handle (next_hid s)) ''i'' w ft, None)]
           \<and> cells s' (next_addr s) =
                Some \<lparr>cell_value = Handle (next_hid s), cell_deleter = Close_T,
                      cell_use_count = 1\<rparr>
           \<and> trace (reset (next_addr s) s') = trace s' @ [(H5Tclose (Handle (next_hid s)), None)]
           \<and> cells (reset (next_addr s) s') (next_addr s) = None"
  using assms
  by (cases t)
     (simp_all add: get_hdf5_datatype_def new_hid_t_def native_ret_def native_void_def
        store_def deref_def reset_def run_deleter_def
        sizeof_complex_float_def sizeof_complex_double_def sizeof_complex_long_double_def)

theorem complex_descriptor_owned_compound_witness:
  "complex_base T_complex_double = Some (H5T_NATIVE_DOUBLE, 8)
   \<and> (\<exists>s'. get_hdf5_datatype T_complex_double (init_state :: nat h5_state) = Inr (0, s')
           \<and> trace s' =
                [(H5Tcreate H5T_COMPOUND 16, Some (Handle 0)),
                 (H5Tinsert (Handle 0) ''r'' 0 H5T_NATIVE_DOUBLE, None),
                 (H5Tinsert (Handle 0) ''i'' 8 H5T_NATIVE_DOUBLE, None)]
           \<and> trace (reset 0 s') = trace s' @ [(H5Tclose (Handle 0), None)])"
proof -
  have h: "complex_base T_complex_double = Some (H5T_NATIVE_DOUBLE, 8)"
    by (simp add: sizeof_double_def)
  from complex_descriptor_owned_compound [OF h, of "init_state :: nat h5_state"]
  show ?thesis using h by (auto simp add: init_state_def)
qed

section \<open>The destructor of a dataset\<close>

text \<open>
  Claim C8. Take a dataset object as its constructor returned it, and any later state
  in which the three cells of the object are as the constructor left them. Destroying
  the object there issues, in this order, the closing of the dataset handle and then
  the closing of the dataspace handle; the only call after them is the closing of the
  compound type, when the element type is complex.
\<close>

theorem dataset_destructor_closes_dataset_then_dataspace:
  assumes "DataSet_ctor bits t nm parent dims mpi_flag mode s0 = Inr (this, s1)"
      and "cells s (hdf5_reference this) = cells s1 (hdf5_reference this)"
      and "cells s (dataspace this) = cells s1 (dataspace this)"
      and "cells s (t_type this) = cells s1 (t_type this)"
  shows "trace (DataSet_dtor this s) =
           trace s @
           [(H5Dclose (deref s (hdf5_reference this)), None),
            (H5Sclose (deref s (dataspace this)), None)]
           @ (if complex_base t = None then []
              else [(H5Tclose (deref s (t_type this)), None)])"
proof -
  from ctor_cells [OF assms(1)] obtain vd vs vt where
    a: "t_type this = next_addr s0" "hdf5_reference this = Suc (next_addr s0)"
       "dataspace this = Suc (Suc (next_addr s0))"
    and cd: "cells s1 (Suc (next_addr s0)) =
               Some \<lparr>cell_value = vd, cell_deleter = Close_D, cell_use_count = 1\<rparr>"
    and cs: "cells s1 (Suc (Suc (next_addr s0))) =
               Some \<lparr>cell_value = vs, cell_deleter = Close_S, cell_use_count = 1\<rparr>"
    and ct: "cells s1 (next_addr s0) =
               Some \<lparr>cell_value = vt,
                     cell_deleter = (if complex_base t = None then Delete_only else Close_T),
                     cell_use_count = 1\<rparr>"
    by blast
  define u1 where "u1 = reset (Suc (next_addr s0)) s"
  define u2 where "u2 = reset (Suc (Suc (next_addr s0))) u1"
  have d1: "cells s (Suc (next_addr s0)) =
               Some \<lparr>cell_value = vd, cell_deleter = Close_D, cell_use_count = 1\<rparr>"
    using assms(2) cd a by simp
  have t1: "trace u1 = trace s @ [(H5Dclose vd, None)]"
    unfolding u1_def reset_sole_owner [OF d1] by (simp add: run_deleter_simps)
  have d2: "cells u1 (Suc (Suc (next_addr s0))) =
               Some \<lparr>cell_value = vs, cell_deleter = Close_S, cell_use_count = 1\<rparr>"
    unfolding u1_def using assms(3) cs a by (simp add: cells_reset_other)
  have t2: "trace u2 = trace u1 @ [(H5Sclose vs, None)]"
    unfolding u2_def reset_sole_owner [OF d2] by (simp add: run_deleter_simps)
  have d3: "cells u2 (next_addr s0) =
               Some \<lparr>cell_value = vt,
                     cell_deleter = (if complex_base t = None then Delete_only else Close_T),
                     cell_use_count = 1\<rparr>"
    unfolding u2_def u1_def using assms(4) ct a by (simp add: cells_reset_other)
  have t3: "trace (reset (next_addr s0) u2) =
              trace u2 @ (if complex_base t = None then [] else [(H5Tclose vt, None)])"
    unfolding reset_sole_owner [OF d3] by (simp add: run_deleter_simps)
  have v: "deref s (hdf5_reference this) = vd" "deref s (dataspace this) = vs"
          "deref s (t_type this) = vt"
    using assms(2,3,4) a cd cs ct by (simp_all add: deref_def)
  have "DataSet_dtor this s = reset (next_addr s0) u2"
    by (simp add: DataSet_dtor_def a u1_def u2_def)
  then show ?thesis
    by (simp add: t1 t2 t3 v)
qed

theorem dataset_destructor_closes_dataset_then_dataspace_witness:
  "DataSet_ctor 32 T_complex_double ''d'' (Handle 1) [2, 3] True Mode_create (snd sample_file)
     = Inr (fst sample_dataset, snd sample_dataset)
   \<and> trace (DataSet_dtor (fst sample_dataset) (snd sample_dataset)) =
       trace (snd sample_dataset) @
       [(H5Dclose (Handle 4), None), (H5Sclose (Handle 3), None), (H5Tclose (Handle 2), None)]"
  using dataset_destructor_closes_dataset_then_dataspace
          [OF sample_dataset_created refl refl refl]
  by (simp del: One_nat_def
        add: sample_dataset_created sample_dataset_fields sample_dataset_state)

section \<open>The 32-bit product in the hyperslab check\<close>

text \<open>
  Claim C9, amended. In both hyperslab variants the expected element count is folded
  from the extents by 32-bit unsigned multiplication into an accumulator of type
  \<^verbatim>\<open>int\<close>, and the assertion compares the buffer's element count with that
  accumulator converted to a 64-bit size. The value compared is therefore the product
  of the extents reduced modulo \<open>2 ^ 32\<close> when that is below \<open>2 ^ 31\<close>, and that
  value plus \<open>2 ^ 64 - 2 ^ 32\<close> otherwise; the write fails its assertion exactly when
  the buffer's element count differs from this value, whatever the true product is.
\<close>

theorem hyperslab_check_compares_sign_extended_truncation:
  "int_to_size_t (accumulate_multiplies count)
     = (if truncated_product count < 2147483648 then truncated_product count
        else truncated_product count + 18446744069414584320)
   \<and> (isl (write_data_hyperslab this data offset count s)
        \<longleftrightarrow> length data \<noteq> int_to_size_t (accumulate_multiplies count))
   \<and> (isl (write_data_hyperslab_matrix this mat offset count s)
        \<longleftrightarrow> size_t_times (FM_m mat) (FM_n mat) \<noteq> int_to_size_t (accumulate_multiplies count))"
proof (intro conjI)
  show "int_to_size_t (accumulate_multiplies count)
     = (if truncated_product count < 2147483648 then truncated_product count
        else truncated_product count + 18446744069414584320)"
    unfolding int_to_size_t_eq unat_accumulate_multiplies ..
  show "isl (write_data_hyperslab this data offset count s)
        \<longleftrightarrow> length data \<noteq> int_to_size_t (accumulate_multiplies count)"
    by (auto simp add: write_data_hyperslab_eq)
  show "isl (write_data_hyperslab_matrix this mat offset count s)
        \<longleftrightarrow> size_t_times (FM_m mat) (FM_n mat) \<noteq> int_to_size_t (accumulate_multiplies count)"
    by (auto simp add: write_data_hyperslab_matrix_eq)
qed

text \<open>
  As stated, claim C9 fails when the truncated product has its top bit set. The
  extents \<open>2 ^ 31\<close> by 3 have the product \<open>3 * 2 ^ 31\<close>, at least \<open>2 ^ 32\<close>, which is
  \<open>2 ^ 31\<close> modulo \<open>2 ^ 32\<close>; a buffer of exactly \<open>2 ^ 31\<close> elements is rejected,
  because the value it is compared with is \<open>2 ^ 64 - 2 ^ 31\<close>.
\<close>

theorem hyperslab_check_truncated_value_counterexample:
  "prod_list (map unat [2147483648, 3 :: hsize_t]) = 6442450944
   \<and> (6442450944 :: nat) mod 2 ^ 32 = 2147483648
   \<and> length (replicate 2147483648 (0 :: nat)) = 2147483648
   \<and> write_data_hyperslab (fst sample_dataset) (replicate 2147483648 (0 :: nat)) [0, 0]
        [2147483648, 3] (snd sample_dataset)
       = Inl (ExcDimensionMismatch 18446744071562067968 2147483648)"
  by (simp add: write_data_hyperslab_eq accumulate_example)

section \<open>Children of a group\<close>

text \<open>
  Claim C10. Let a group own an allocated handle cell. Opening a child group and
  creating a child group always succeed in handing back a group whose flag \<open>mpi\<close> is
  the parent's; a dataset created through the group has the parent's flag; and after
  each of these operations, and after either form of \<open>write_dataset\<close>, the parent's
  handle cell holds what it held before (value, deleter and owner count). The group
  object itself, with its name and its flag, is a value that the operations read and
  cannot change.
\<close>

theorem group_operations_pass_mpi_and_keep_parent:
  assumes "hdf5_reference g < next_addr s"
  shows "(\<exists>c s'. group_open nm g s = Inr (c, s') \<and> mpi c = mpi g
             \<and> cells s' (hdf5_reference g) = cells s (hdf5_reference g))
         \<and> (\<exists>c s'. create_group nm g s = Inr (c, s') \<and> mpi c = mpi g
             \<and> cells s' (hdf5_reference g) = cells s (hdf5_reference g))
         \<and> (\<forall>d s'. create_dataset bits t nm dims g s = Inr (d, s') \<longrightarrow>
               mpi d = mpi g \<and> cells s' (hdf5_reference g) = cells s (hdf5_reference g))
         \<and> (\<forall>s'. write_dataset bits t nm data g s = Inr s' \<longrightarrow>
               cells s' (hdf5_reference g) = cells s (hdf5_reference g))
         \<and> (\<forall>s'. write_dataset_matrix bits t nm mat g s = Inr s' \<longrightarrow>
               cells s' (hdf5_reference g) = cells s (hdf5_reference g))"
proof (intro conjI allI impI)
  show "\<exists>c s'. group_open nm g s = Inr (c, s') \<and> mpi c = mpi g
             \<and> cells s' (hdf5_reference g) = cells s (hdf5_reference g)"
    unfolding group_open_def using Group_ctor_eq [of Mode_open _ s nm g "mpi g", OF _ assms]
    by auto
  show "\<exists>c s'. create_group nm g s = Inr (c, s') \<and> mpi c = mpi g
             \<and> cells s' (hdf5_reference g) = cells s (hdf5_reference g)"
    unfolding create_group_def using Group_ctor_eq [of Mode_create _ s nm g "mpi g", OF _ assms]
    by auto
next
  fix d s' assume c: "create_dataset bits t nm dims g s = Inr (d, s')"
  then show "mpi d = mpi g"
    unfolding create_dataset_def by (rule ctor_total_size(2))
  from c show "cells s' (hdf5_reference g) = cells s (hdf5_reference g)"
    unfolding create_dataset_def by (rule ctor_keeps_old_cells) (rule assms)
next
  fix s' assume "write_dataset bits t nm data g s = Inr s'"
  then show "cells s' (hdf5_reference g) = cells s (hdf5_reference g)"
    unfolding write_dataset_unfold
    by (rule create_then_write_cells) (auto intro: write_data_cells assms)
next
  fix s' assume "write_dataset_matrix bits t nm mat g s = Inr s'"
  then show "cells s' (hdf5_reference g) = cells s (hdf5_reference g)"
    unfolding write_dataset_unfold
    by (rule create_then_write_cells) (auto intro: write_data_cells assms)
qed

theorem group_operations_pass_mpi_and_keep_parent_witness:
  "hdf5_reference (fst sample_file) < next_addr (snd sample_file)
   \<and> (\<exists>c s'. group_open ''sub'' (fst sample_file) (snd sample_file) = Inr (c, s')
          \<and> mpi c = mpi (fst sample_file)
          \<and> cells s' (hdf5_reference (fst sample_file))
              = cells (snd sample_file) (hdf5_reference (fst sample_file)))
   \<and> (\<exists>c s'. create_group ''sub'' (fst sample_file) (snd sample_file) = Inr (c, s')
          \<and> mpi c = mpi (fst sample_file)
          \<and> cells s' (hdf5_reference (fst sample_file))
              = cells (snd sample_file) (hdf5_reference (fst sample_file)))
   \<and> create_dataset 32 T_complex_double ''d'' [2, 3] (fst sample_file) (snd sample_file)
       = Inr (fst sample_dataset, snd sample_dataset)
   \<and> mpi (fst sample_dataset) = mpi (fst sample_file)
   \<and> cells (snd sample_dataset) (hdf5_reference (fst sample_file))
       = cells (snd sample_file) (hdf5_reference (fst sample_file))
   \<and> write_dataset 32 T_double ''v'' [1, 2, 3 :: nat] (fst sample_file) (snd sample_file)
       = Inr (projr (write_dataset 32 T_double ''v'' [1, 2, 3 :: nat] (fst sample_file) (snd sample_file)))
   \<and> cells (projr (write_dataset 32 T_double ''v'' [1, 2, 3 :: nat] (fst sample_file) (snd sample_file))) (hdf5_reference (fst sample_file))
       = cells (snd sample_file) (hdf5_reference (fst sample_file))
   \<and> write_dataset_matrix 32 T_double ''m'' \<lparr>FM_m = 1, FM_n = 2, FM_values = [7, 8 :: nat]\<rparr>
         (fst sample_file) (snd sample_file)
       = Inr (projr (write_dataset_matrix 32 T_double ''m'' \<lparr>FM_m = 1, FM_n = 2, FM_values = [7, 8 :: nat]\<rparr>
         (fst sample_file) (snd sample_file)))
   \<and> cells (projr (write_dataset_matrix 32 T_double ''m'' \<lparr>FM_m = 1, FM_n = 2, FM_values = [7, 8 :: nat]\<rparr>
         (fst sample_file) (snd sample_file))) (hdf5_reference (fst sample_file))
       = cells (snd sample_file) (hdf5_reference (fst sample_file))"
proof -
  have h: "hdf5_reference (fst sample_file) < next_addr (snd sample_file)"
    by (simp add: sample_file_fields)
  note t = group_operations_pass_mpi_and_keep_parent [OF h]
  have a1: "(\<exists>c s'. group_open ''sub'' (fst sample_file) (snd sample_file) = Inr (c, s')
          \<and> mpi c = mpi (fst sample_file)
          \<and> cells s' (hdf5_reference (fst sample_file))
              = cells (snd sample_file) (hdf5_reference (fst sample_file)))"
    by (rule t [THEN conjunct1])
  have a2: "(\<exists>c s'. create_group ''sub'' (fst sample_file) (snd sample_file) = Inr (c, s')
          \<and> mpi c = mpi (fst sample_file)
          \<and> cells s' (hdf5_reference (fst sample_file))
              = cells (snd sample_file) (hdf5_reference (fst sample_file)))"
    by (rule t [THEN conjunct2, THEN conjunct1])
  have r0: "create_dataset 32 T_complex_double ''d'' [2, 3] (fst sample_file) (snd sample_file)
       = Inr (fst sample_dataset, snd sample_dataset)"
    by (rule sample_dataset_via_group)
  have a3: "mpi (fst sample_dataset) = mpi (fst sample_file)
   \<and> cells (snd sample_dataset) (hdf5_reference (fst sample_file))
       = cells (snd sample_file) (hdf5_reference (fst sample_file))"
    by (rule t [THEN conjunct2, THEN conjunct2, THEN conjunct1, rule_format, OF r0])
  have r1: "write_dataset 32 T_double ''v'' [1, 2, 3 :: nat] (fst sample_file) (snd sample_file)
       = Inr (projr (write_dataset 32 T_double ''v'' [1, 2, 3 :: nat] (fst sample_file) (snd sample_file)))"
    using sample_write_dataset_returns(1) by simp
  have a4: "cells (projr (write_dataset 32 T_double ''v'' [1, 2, 3 :: nat] (fst sample_file) (snd sample_file))) (hdf5_reference (fst sample_file))
       = cells (snd sample_file) (hdf5_reference (fst sample_file))"
    by (rule t [THEN conjunct2, THEN conjunct2, THEN conjunct2, THEN conjunct1,
                rule_format, OF r1])
  have r2: "write_dataset_matrix 32 T_double ''m'' \<lparr>FM_m = 1, FM_n = 2, FM_values = [7, 8 :: nat]\<rparr>
         (fst sample_file) (snd sample_file)
       = Inr (projr (write_dataset_matrix 32 T_double ''m'' \<lparr>FM_m = 1, FM_n = 2, FM_values = [7, 8 :: nat]\<rparr>
         (fst sample_file) (snd sample_file)))"
    using sample_write_dataset_returns(2) by simp
  have a5: "cells (projr (write_dataset_matrix 32 T_double ''m'' \<lparr>FM_m = 1, FM_n = 2, FM_values = [7, 8 :: nat]\<rparr>
         (fst sample_file) (snd sample_file))) (hdf5_reference (fst sample_file))
       = cells (snd sample_file) (hdf5_reference (fst sample_file))"
    by (rule t [THEN conjunct2, THEN conjunct2, THEN conjunct2, THEN conjunct2,
                rule_format, OF r2])
  show ?thesis
    by (intro conjI h a1 a2 r0 a3 [THEN conjunct1] a3 [THEN conjunct2] r1 a4 r2 a5)
qed

end
